theory Spec2Isabelle
  imports Main "HOL-Library.Sublist"
begin

section \<open>rrvideo: the recording orchestrator of \<open>src/index.ts\<close>\<close>

text \<open>
  The development embeds the single source file of the repository: the HTML template
  \<open>getHtml\<close>, the configuration defaults and the constructor of the class \<open>RRvideo\<close>, its
  event handlers (\<open>startRecording\<close>, the capture timer, the three encoder handlers,
  \<open>finishRecording\<close>, \<open>getConsoleMsg\<close>) and the promise built by \<open>transformToVideo\<close>.

  Node runs every handler to completion, or up to its next \<open>await\<close>, before the next
  one starts. A handler is therefore a function from the object's state to its new state,
  and a run is a list of the events that the environment (the page, the timers, the
  encoder process) delivers. The two \<open>await\<close>s at which a handler is suspended with work
  still to do, \<open>page.$\<close> in \<open>startRecording\<close> and \<open>screenshot\<close> in the timer, split their
  handler into two events.
\<close>

subsection \<open>JavaScript values\<close>

text \<open>
  The values that reach the callback's \<open>error\<close> parameter: an \<open>Error\<close> object (with its
  message) from Node and puppeteer, or the plain string that \<open>getConsoleMsg\<close> passes.
\<close>

datatype js_error = Error string | Str string

text \<open>JavaScript truthiness, as used by \<open>||\<close>, \<open>&&\<close>, \<open>!\<close> and \<open>if\<close>.\<close>

fun truthy_error :: "js_error option \<Rightarrow> bool" where
  "truthy_error None = False"
| "truthy_error (Some (Error m)) = True"
| "truthy_error (Some (Str t)) = (t \<noteq> [])"

text \<open>
  Numbers of the configuration are modelled as integers (the frame rate is a number of
  frames per second, the sizes are pixels, the delay is milliseconds); \<open>0\<close> is the falsy
  one. \<open>undefined\<close> is \<open>None\<close>.
\<close>

fun truthy_number :: "int option \<Rightarrow> bool" where
  "truthy_number None = False"
| "truthy_number (Some n) = (n \<noteq> 0)"

fun truthy_boolean :: "bool option \<Rightarrow> bool" where
  "truthy_boolean None = False"
| "truthy_boolean (Some b) = b"

fun truthy_string :: "string option \<Rightarrow> bool" where
  "truthy_string None = False"
| "truthy_string (Some t) = (t \<noteq> [])"

text \<open>\<open>a || d\<close> where \<open>a\<close> may be \<open>undefined\<close>: \<open>a\<close> when it is truthy, \<open>d\<close> otherwise.\<close>

definition or_else :: "('a option \<Rightarrow> bool) \<Rightarrow> 'a option \<Rightarrow> 'a \<Rightarrow> 'a" where
  "or_else truthy a d = (if truthy a then the a else d)"

text \<open>\<open>Number.prototype.toString\<close> on an integer: its decimal digits, with a sign.\<close>

definition digit_char :: "nat \<Rightarrow> char" where
  "digit_char d = ''0123456789'' ! d"

fun nat_digits :: "nat \<Rightarrow> string" where
  "nat_digits n =
     (if n < 10 then [digit_char n] else nat_digits (n div 10) @ [digit_char (n mod 10)])"

definition Number_toString :: "int \<Rightarrow> string" where
  "Number_toString n = (if n < 0 then CHR ''-'' # nat_digits (nat (- n)) else nat_digits (nat n))"

text \<open>
  \<open>String.prototype.indexOf\<close>: the index of the first occurrence, \<open>-1\<close> when there is none.
\<close>

fun indexOf_from :: "nat \<Rightarrow> string \<Rightarrow> string \<Rightarrow> int" where
  "indexOf_from k [] pat = (if pat = [] then int k else - 1)"
| "indexOf_from k (c # cs) pat =
     (if prefix pat (c # cs) then int k else indexOf_from (Suc k) cs pat)"

definition indexOf :: "string \<Rightarrow> string \<Rightarrow> int" where
  "indexOf t pat = indexOf_from 0 t pat"

text \<open>
  \<open>String.prototype.replace\<close> with a global regular expression that is a literal
  \<open>pat\<close> and a replacement \<open>rep\<close> without \<open>$\<close>: the matches are found from left to right
  and do not overlap.
\<close>

fun replace_all :: "string \<Rightarrow> string \<Rightarrow> string \<Rightarrow> string" where
  "replace_all pat rep [] = []"
| "replace_all pat rep (c # cs) =
     (if pat \<noteq> [] \<and> prefix pat (c # cs)
      then rep @ replace_all pat rep (drop (length pat - 1) cs)
      else c # replace_all pat rep cs)"

subsection \<open>Configuration\<close>

text \<open>
  The player options that the source reads: \<open>width\<close> and \<open>height\<close> in \<open>startRecording\<close>,
  \<open>autoPlay\<close>, \<open>showController\<close> and \<open>startDelayTime\<close> in the page script. The other
  options of the player are handed to it as they are and decide nothing here.
\<close>

record player_options =
  width :: "int option"
  height :: "int option"
  autoPlay :: "bool option"
  showController :: "bool option"
  startDelayTime :: "int option"

text \<open>
  \<open>RRvideoConfig\<close>. Its field \<open>cb\<close> is not a field here: the class is not exported, and
  \<open>transformToVideo\<close>, the only caller of the constructor, always passes the function that
  settles its promise; that function is \<open>cb\<close> below.
\<close>

record RRvideoConfig =
  fps :: int
  headless :: bool
  input :: string
  "output" :: string
  rrwebPlayer :: player_options

text \<open>\<open>Partial<RRvideoConfig> & { input: string }\<close>\<close>

record partial_config =
  p_fps :: "int option"
  p_headless :: "bool option"
  p_input :: string
  p_output :: "string option"
  p_rrwebPlayer :: "player_options option"

definition emptyPlayer :: player_options where
  "emptyPlayer = \<lparr>width = None, height = None, autoPlay = None, showController = None,
     startDelayTime = None\<rparr>"

definition defaultConfig :: RRvideoConfig where
  "defaultConfig = \<lparr>fps = 15, headless = True, input = '''', output = ''rrvideo-output.mp4'',
     rrwebPlayer = emptyPlayer\<rparr>"

text \<open>
  The constructor. \<open>config?.f\<close> is \<open>undefined\<close> when \<open>config\<close> is; an object is always
  truthy, so \<open>rrwebPlayer\<close> is replaced only when it is absent.
\<close>

definition opt_field :: "('c \<Rightarrow> 'a option) \<Rightarrow> 'c option \<Rightarrow> 'a option" where
  "opt_field f c = (case c of None \<Rightarrow> None | Some p \<Rightarrow> f p)"

definition RRvideo_constructor :: "partial_config option \<Rightarrow> RRvideoConfig" where
  "RRvideo_constructor config =
     \<lparr>fps = or_else truthy_number (opt_field p_fps config) (fps defaultConfig),
      headless = or_else truthy_boolean (opt_field p_headless config) (headless defaultConfig),
      input = or_else truthy_string (opt_field (\<lambda>p. Some (p_input p)) config) (input defaultConfig),
      output = or_else truthy_string (opt_field p_output config) (output defaultConfig),
      rrwebPlayer = or_else (\<lambda>a. a \<noteq> None) (opt_field p_rrwebPlayer config)
        (rrwebPlayer defaultConfig)\<rparr>"

subsection \<open>The page script\<close>

text \<open>
  The script that \<open>getHtml\<close> injects runs in the page with \<open>userConfig\<close>, the player
  options. What it computes from them:
  \<^item> the properties given to \<open>rrwebPlayer\<close>,
    \<open>{events, showController: false, autoPlay: false, ...userConfig}\<close>: a spread property
    that is present overrides the one before it;
  \<^item> \<open>time = userConfig.startDelayTime || 1000\<close>;
  \<^item> \<open>start\<close>, which calls its argument after \<open>time\<close> milliseconds, or at once when
    \<open>userConfig.autoPlay\<close> is truthy.
\<close>

definition props_showController :: "player_options \<Rightarrow> bool" where
  "props_showController userConfig =
     (case showController userConfig of None \<Rightarrow> False | Some b \<Rightarrow> b)"

definition props_autoPlay :: "player_options \<Rightarrow> bool" where
  "props_autoPlay userConfig = (case autoPlay userConfig of None \<Rightarrow> False | Some b \<Rightarrow> b)"

definition page_time :: "player_options \<Rightarrow> int" where
  "page_time userConfig = or_else truthy_number (startDelayTime userConfig) 1000"

text \<open>The delay of \<open>start\<close>: \<open>None\<close> is the direct call, \<open>Some t\<close> is \<open>setTimeout\<close> with \<open>t\<close>.\<close>

definition page_start_delay :: "player_options \<Rightarrow> int option" where
  "page_start_delay userConfig =
     (if truthy_boolean (autoPlay userConfig) then None else Some (page_time userConfig))"

subsection \<open>The HTML document\<close>

text \<open>
  The events are what \<open>JSON.parse\<close> returned, a JSON value; \<open>JSON.stringify\<close> writes it
  back without white space. In a string it escapes the quotation mark, the backslash and
  the control characters below \<open>0x20\<close>, and nothing else: \<open><\<close>, \<open>/\<close> and \<open>>\<close> pass as they
  are. Strings are sequences of bytes (UTF-8), numbers are integers.
\<close>

datatype json =
  JNull | JBool bool | JNumber int | JString string | JArray "json list"
  | JObject "(string \<times> json) list"

definition hex_digit :: "nat \<Rightarrow> char" where
  "hex_digit d = ''0123456789abcdef'' ! d"

definition quote_char :: "char \<Rightarrow> string" where
  "quote_char c =
     (if c = CHR 0x22 then [CHR 0x5C, CHR 0x22]
      else if c = CHR 0x5C then [CHR 0x5C, CHR 0x5C]
      else if c = CHR 0x08 then [CHR 0x5C, CHR ''b'']
      else if c = CHR 0x09 then [CHR 0x5C, CHR ''t'']
      else if c = CHR 0x0A then [CHR 0x5C, CHR ''n'']
      else if c = CHR 0x0C then [CHR 0x5C, CHR ''f'']
      else if c = CHR 0x0D then [CHR 0x5C, CHR ''r'']
      else if (of_char c :: nat) < 32
        then [CHR 0x5C, CHR ''u'', CHR ''0'', CHR ''0'',
              hex_digit (of_char c div 16), hex_digit (of_char c mod 16)]
      else [c])"

definition quote :: "string \<Rightarrow> string" where
  "quote t = [CHR 0x22] @ concat (map quote_char t) @ [CHR 0x22]"

fun join :: "string \<Rightarrow> string list \<Rightarrow> string" where
  "join sep [] = []"
| "join sep [t] = t"
| "join sep (t # u # ts) = t @ sep @ join sep (u # ts)"

fun JSON_stringify :: "json \<Rightarrow> string" where
  "JSON_stringify JNull = ''null''"
| "JSON_stringify (JBool b) = (if b then ''true'' else ''false'')"
| "JSON_stringify (JNumber n) = Number_toString n"
| "JSON_stringify (JString t) = quote t"
| "JSON_stringify (JArray vs) = ''['' @ join '','' (map JSON_stringify vs) @ '']''"
| "JSON_stringify (JObject kvs) =
     ''{'' @ join '','' (map (\<lambda>(k, v). quote k @ '':'' @ JSON_stringify v) kvs) @ ''}''"

text \<open>
  The template of \<open>getHtml\<close>, cut at its four interpolations. \<open>rrwebStyle\<close> and
  \<open>rrwebRaw\<close> are the two files of the player package that the module reads when it is
  loaded; they are parameters here.
\<close>

definition html_head :: string where
  "html_head =
     ''\<newline>'' @
     ''<html>\<newline>'' @
     ''  <head>\<newline>'' @
     ''  <style>''"

definition html_script_open :: string where
  "html_script_open =
     ''</style>\<newline>'' @
     ''  </head>\<newline>'' @
     ''  <body>\<newline>'' @
     ''    <script>\<newline>'' @
     ''      ''"

definition html_events_open :: string where
  "html_events_open =
     '';\<newline>'' @
     ''      /*<!--*/\<newline>'' @
     ''      const events = ''"

definition html_config_open :: string where
  "html_config_open =
     '';\<newline>'' @
     ''      /*-->*/\<newline>'' @
     ''      const userConfig = ''"

definition html_player :: string where
  "html_player =
     '';\<newline>'' @
     ''      try {\<newline>'' @
     ''        window.replayer = new rrwebPlayer({\<newline>'' @
     ''          target: document.body,\<newline>'' @
     ''          props: {\<newline>'' @
     ''            events,\<newline>'' @
     ''            showController: false,\<newline>'' @
     ''            autoPlay: false, // autoPlay off by default\<newline>'' @
     ''            ...userConfig\<newline>'' @
     ''          },\<newline>'' @
     ''        }); \<newline>'' @
     ''\<newline>'' @
     ''        window.replayer.addEventListener('finish', () => window.onReplayFinish());\<newline>'' @
     ''        let time = userConfig.startDelayTime || 1000 // start playback delay time, default 1000ms\<newline>'' @
     ''        let start = fn => {\<newline>'' @
     ''          setTimeout(() => {\<newline>'' @
     ''            fn()\<newline>'' @
     ''          }, time)\<newline>'' @
     ''        }\<newline>'' @
     ''        // It is recommended not to play auto by default. If the speed is not 1, the page block in the early stage of autoPlay will be blank\<newline>'' @
     ''        if (userConfig.autoPlay) {\<newline>'' @
     ''          start = fn => {\<newline>'' @
     ''            fn()\<newline>'' @
     ''          };\<newline>'' @
     ''        }\<newline>'' @
     ''        start(() => {\<newline>'' @
     ''          window.onReplayStart();\<newline>'' @
     ''          window.replayer.play();\<newline>'' @
     ''        })\<newline>'' @
     ''      }catch(e){\<newline>'' @
     ''        // When I pass in the wrong JSON file, for example the file content is only [], the replayer will throw an exception in the console, but this exception cannot be caught by this conversion program, the program will not be able to continue, and the result will not be returned. We recommend that you catch the exception and handle it.\<newline>'' @
     ''        console.error(\"Replayer Uncaught Error:\"+e.message);\<newline>'' @
     ''      }\<newline>'' @
     ''    </script>\<newline>'' @
     ''  </body>\<newline>'' @
     ''</html>\<newline>''"

text \<open>
  \<open>.replace(/<\/script>/g, "<\\/script>")\<close>: the pattern is the text \<open></script>\<close>, matched
  as it is written (the expression has the flag \<open>g\<close> and no flag \<open>i\<close>); the replacement is
  \<open><\<close>, a backslash, \<open>/script>\<close>.
\<close>

definition script_close :: string where
  "script_close = ''</script>''"

definition script_close_escaped :: string where
  "script_close_escaped = ''<'' @ [CHR 0x5C] @ ''/script>''"

definition escape_script_close :: "string \<Rightarrow> string" where
  "escape_script_close t = replace_all script_close script_close_escaped t"

definition events_literal :: "json \<Rightarrow> string" where
  "events_literal events = escape_script_close (JSON_stringify events)"

text \<open>
  \<open>config ? JSON.stringify(config) : {}\<close>: an absent \<open>config\<close> interpolates the empty object,
  whose string conversion is \<open>[object Object]\<close>.
\<close>

definition config_literal :: "json option \<Rightarrow> string" where
  "config_literal config =
     (case config of None \<Rightarrow> ''[object Object]'' | Some c \<Rightarrow> JSON_stringify c)"

definition getHtml :: "string \<Rightarrow> string \<Rightarrow> json \<Rightarrow> json option \<Rightarrow> string" where
  "getHtml rrwebStyle rrwebRaw events config =
     html_head @ rrwebStyle @ html_script_open @ rrwebRaw @ html_events_open @
     events_literal events @ html_config_open @ config_literal config @ html_player"

subsection \<open>The state of a run\<close>

datatype lifecycle = Idle | Recording | Closed

text \<open>
  The promise of \<open>transformToVideo\<close>: pending (\<open>None\<close>), or settled by the first call of
  \<open>resolve\<close> or \<open>reject\<close>. A call on a settled promise does nothing.
\<close>

datatype settled = Resolved string | Rejected js_error

record console_message =
  msg_type :: string
  msg_text :: string

text \<open>
  What one resumed call of \<open>startRecording\<close> owns in its closure: the element found, the
  encoder process with the arguments it was spawned with, the interval timer and the
  resolved output path. The delay \<open>1000 / fps\<close> of the timer is kept as the pair of
  dividend and divisor. The counters record what the timer did with the element and with
  the standard input of the process.
\<close>

record recording_session =
  wrapperEl :: string
  command :: string
  args :: "string list"
  outputPath :: string
  timer_delay :: "int \<times> int"
  timer_set :: bool
  screenshots :: nat
  capturing :: nat
  stdin_written :: "string list"
  stdin_end_calls :: nat

text \<open>
  The fields of the object (\<open>state\<close>, \<open>processError\<close>), the effects on the browser (the
  \<open>headless\<close> option it was launched with, the calls of \<open>browser.close\<close>, the selectors of
  the calls of \<open>page.$\<close> that have not returned yet), the sessions, every call of
  \<open>config.cb\<close> in order, and the promise.
\<close>

record RRvideo =
  state :: lifecycle
  processError :: "js_error option"
  launch_headless :: "bool option"
  browser_close_calls :: nat
  selecting :: "string list"
  sessions :: "recording_session list"
  cb_calls :: "(string \<times> js_error option) list"
  promise :: "settled option"

definition new_RRvideo :: RRvideo where
  "new_RRvideo = \<lparr>state = Idle, processError = None, launch_headless = None,
     browser_close_calls = 0, selecting = [], sessions = [], cb_calls = [], promise = None\<rparr>"

text \<open>
  What the module asks of \<open>path\<close> and \<open>process\<close>: \<open>path.isAbsolute\<close>, and
  \<open>path.resolve(process.cwd(), p)\<close>.
\<close>

record node_env =
  isAbsolute :: "string \<Rightarrow> bool"
  resolve_cwd :: "string \<Rightarrow> string"

definition posix_env :: node_env where
  "posix_env = \<lparr>isAbsolute = (\<lambda>p. p \<noteq> [] \<and> hd p = CHR ''/''),
     resolve_cwd = (\<lambda>p. ''/work/'' @ p)\<rparr>"

subsection \<open>The handlers\<close>

text \<open>
  The callback that \<open>transformToVideo\<close> puts in the configuration:
  \<open>cb(file, error) { if (error) { return reject(error); } resolve(file); }\<close>.
\<close>

definition cb :: "string \<Rightarrow> js_error option \<Rightarrow> RRvideo \<Rightarrow> RRvideo" where
  "cb file error s =
     s\<lparr>cb_calls := cb_calls s @ [(file, error)],
       promise :=
         (case promise s of
            Some r \<Rightarrow> Some r
          | None \<Rightarrow> Some (if truthy_error error then Rejected (the error) else Resolved file))\<rparr>"

text \<open>\<open>init\<close>: the launch of the browser, and the \<open>catch\<close> of whatever its body threw.\<close>

definition init_launch :: "RRvideoConfig \<Rightarrow> RRvideo \<Rightarrow> RRvideo" where
  "init_launch config s = s\<lparr>launch_headless := Some (headless config)\<rparr>"

definition init_catch :: "js_error \<Rightarrow> RRvideo \<Rightarrow> RRvideo" where
  "init_catch error s = cb [] (Some error) s"

text \<open>\<open>startRecording\<close> up to \<open>await this.page.$(wrapperSelector)\<close>.\<close>

definition startRecording :: "RRvideoConfig \<Rightarrow> RRvideo \<Rightarrow> RRvideo" where
  "startRecording config s =
     (let wrapperSelector =
        (if truthy_number (width (rrwebPlayer config)) \<and> truthy_number (height (rrwebPlayer config))
         then ''.rr-player'' else ''.replayer-wrapper'')
      in s\<lparr>state := Recording, selecting := selecting s @ [wrapperSelector]\<rparr>)"

text \<open>
  \<open>startRecording\<close> after the \<open>await\<close>, with the selector of the call and whether an
  element was found. Without an element the function throws and nothing else happens.
\<close>

definition startRecording_resume ::
  "node_env \<Rightarrow> RRvideoConfig \<Rightarrow> string \<Rightarrow> bool \<Rightarrow> RRvideo \<Rightarrow> RRvideo" where
  "startRecording_resume env config wrapperSelector found s =
     (if \<not> found then s
      else s\<lparr>sessions := sessions s @
        [\<lparr>wrapperEl = wrapperSelector,
          command = ''ffmpeg'',
          args = [''-framerate'', Number_toString (fps config),
                  ''-f'', ''image2pipe'', ''-i'', ''-'',
                  ''-y'', output config],
          outputPath =
            (if isAbsolute env (output config) then output config
             else resolve_cwd env (output config)),
          timer_delay = (1000, fps config),
          timer_set = True, screenshots = 0, capturing = 0,
          stdin_written = [], stdin_end_calls = 0\<rparr>]\<rparr>)"

text \<open>The timer callback of session \<open>i\<close>, up to \<open>await wrapperEl.screenshot(...)\<close>.\<close>

definition timer_tick :: "nat \<Rightarrow> RRvideo \<Rightarrow> RRvideo" where
  "timer_tick i s =
     (let p = sessions s ! i in
      if state s = Recording \<and> \<not> truthy_error (processError s)
      then s\<lparr>sessions := (sessions s)
             [i := p\<lparr>screenshots := Suc (screenshots p), capturing := Suc (capturing p)\<rparr>]\<rparr>
      else s\<lparr>sessions := (sessions s)
             [i := p\<lparr>timer_set := False,
                     stdin_end_calls :=
                       (if state s = Closed \<and> \<not> truthy_error (processError s)
                        then Suc (stdin_end_calls p) else stdin_end_calls p)\<rparr>]\<rparr>)"

text \<open>
  The rest of the \<open>try\<close> block: with a buffer, \<open>ffmpegProcess.stdin.write(buffer)\<close>; with
  \<open>None\<close>, the block threw and the \<open>catch\<close> ignores it.
\<close>

definition screenshot_done :: "nat \<Rightarrow> string option \<Rightarrow> RRvideo \<Rightarrow> RRvideo" where
  "screenshot_done i buffer s =
     (let p = sessions s ! i in
      s\<lparr>sessions := (sessions s)
        [i := p\<lparr>capturing := capturing p - 1,
                stdin_written :=
                  (case buffer of None \<Rightarrow> stdin_written p | Some b \<Rightarrow> stdin_written p @ [b])\<rparr>]\<rparr>)"

text \<open>The handlers of \<open>close\<close> and \<open>error\<close> of the process and of \<open>error\<close> of its input.\<close>

definition on_close :: "nat \<Rightarrow> RRvideo \<Rightarrow> RRvideo" where
  "on_close i s =
     (if truthy_error (processError s) then s
      else cb (outputPath (sessions s ! i)) None s)"

definition on_error :: "nat \<Rightarrow> js_error \<Rightarrow> RRvideo \<Rightarrow> RRvideo" where
  "on_error i error s =
     (if truthy_error (processError s) then s
      else cb (outputPath (sessions s ! i)) (Some error) (s\<lparr>processError := Some error\<rparr>))"

definition on_stdin_error :: "nat \<Rightarrow> js_error \<Rightarrow> RRvideo \<Rightarrow> RRvideo" where
  "on_stdin_error i error s =
     (if truthy_error (processError s) then s
      else cb (outputPath (sessions s ! i)) (Some error) (s\<lparr>processError := Some error\<rparr>))"

definition finishRecording :: "RRvideo \<Rightarrow> RRvideo" where
  "finishRecording s = s\<lparr>state := Closed, browser_close_calls := Suc (browser_close_calls s)\<rparr>"

definition marker :: string where
  "marker = ''Replayer Uncaught Error:''"

definition replayer_error :: "console_message \<Rightarrow> bool" where
  "replayer_error m = (msg_type m = ''error'' \<and> indexOf (msg_text m) marker = 0)"

fun getConsoleMsg :: "console_message list \<Rightarrow> RRvideo \<Rightarrow> RRvideo" where
  "getConsoleMsg [] s = s"
| "getConsoleMsg (m # msg) s =
     getConsoleMsg msg
       (if replayer_error m
        then cb [] (Some (Str (msg_text m))) ((finishRecording s)\<lparr>processError := None\<rparr>)
        else s)"

subsection \<open>Runs\<close>

text \<open>
  What the environment delivers. An \<open>Error\<close> object arrives with its message. The events
  of a session carry its index; one that names no session, a timer that was cleared, an
  answer nobody waits for cannot happen and change nothing.
\<close>

datatype event =
    InitLaunch
  | InitThrows string
  | OnReplayStart
  | ElementQueried bool
  | OnReplayFinish
  | Console "console_message list"
  | TimerTick nat
  | ScreenshotDone nat "string option"
  | FfmpegClose nat
  | FfmpegError nat string
  | StdinError nat string

fun step :: "node_env \<Rightarrow> RRvideoConfig \<Rightarrow> RRvideo \<Rightarrow> event \<Rightarrow> RRvideo" where
  "step env config s InitLaunch = init_launch config s"
| "step env config s (InitThrows m) = init_catch (Error m) s"
| "step env config s OnReplayStart = startRecording config s"
| "step env config s (ElementQueried found) =
     (case selecting s of
        [] \<Rightarrow> s
      | sel # rest \<Rightarrow> startRecording_resume env config sel found (s\<lparr>selecting := rest\<rparr>))"
| "step env config s OnReplayFinish = finishRecording s"
| "step env config s (Console msg) = getConsoleMsg msg s"
| "step env config s (TimerTick i) =
     (if i < length (sessions s) \<and> timer_set (sessions s ! i) then timer_tick i s else s)"
| "step env config s (ScreenshotDone i buffer) =
     (if i < length (sessions s) \<and> 0 < capturing (sessions s ! i)
      then screenshot_done i buffer s else s)"
| "step env config s (FfmpegClose i) = (if i < length (sessions s) then on_close i s else s)"
| "step env config s (FfmpegError i m) =
     (if i < length (sessions s) then on_error i (Error m) s else s)"
| "step env config s (StdinError i m) =
     (if i < length (sessions s) then on_stdin_error i (Error m) s else s)"

definition run :: "node_env \<Rightarrow> RRvideoConfig \<Rightarrow> RRvideo \<Rightarrow> event list \<Rightarrow> RRvideo" where
  "run env config s evs = foldl (step env config) s evs"

text \<open>
  \<open>transformToVideo\<close>: the object is constructed from the caller's options, \<open>init\<close> is
  called, and the promise is what the events make of it.
\<close>

definition transformToVideo ::
  "node_env \<Rightarrow> partial_config \<Rightarrow> event list \<Rightarrow> settled option" where
  "transformToVideo env config evs =
     promise (run env (RRvideo_constructor (Some config)) new_RRvideo (InitLaunch # evs))"

subsection \<open>Reading the run\<close>

text \<open>
  The outcome that a list of callback calls leaves in a promise that obeys only the first
  of them.
\<close>

fun first_write :: "(string \<times> js_error option) list \<Rightarrow> settled option" where
  "first_write [] = None"
| "first_write ((file, error) # later) =
     Some (if truthy_error error then Rejected (the error) else Resolved file)"

text \<open>
  The promise holds what the first call of the callback gave it, and while it is pending
  no error is latched in \<open>processError\<close>.
\<close>

definition latched :: "RRvideo \<Rightarrow> bool" where
  "latched s \<longleftrightarrow>
     promise s = first_write (cb_calls s) \<and>
     (promise s = None \<longrightarrow> \<not> truthy_error (processError s))"

text \<open>
  The outcome that an event announces: the failure of \<open>init\<close>, a console message with the
  marker, the end of an encoder process (its \<open>close\<close> event), an error of the process or of
  its input. Every other event announces nothing.
\<close>

fun announces :: "RRvideo \<Rightarrow> event \<Rightarrow> settled option" where
  "announces s (InitThrows m) = Some (Rejected (Error m))"
| "announces s (Console msg) =
     (case filter replayer_error msg of
        [] \<Rightarrow> None
      | m # later \<Rightarrow> Some (Rejected (Str (msg_text m))))"
| "announces s (FfmpegClose i) =
     (if i < length (sessions s) then Some (Resolved (outputPath (sessions s ! i))) else None)"
| "announces s (FfmpegError i m) =
     (if i < length (sessions s) then Some (Rejected (Error m)) else None)"
| "announces s (StdinError i m) =
     (if i < length (sessions s) then Some (Rejected (Error m)) else None)"
| "announces s e = None"

text \<open>The order \<open>idle\<close>, \<open>recording\<close>, \<open>closed\<close> of the lifecycle.\<close>

fun rank :: "lifecycle \<Rightarrow> nat" where
  "rank Idle = 0"
| "rank Recording = 1"
| "rank Closed = 2"

text \<open>
  The two kinds of event that write \<open>processError\<close>: an error of an encoder process or of
  its input sets it, a console message with the marker resets it to \<open>null\<close>.
\<close>

fun encoder_error :: "event \<Rightarrow> bool" where
  "encoder_error (FfmpegError i m) = True"
| "encoder_error (StdinError i m) = True"
| "encoder_error e = False"

fun detection :: "event \<Rightarrow> bool" where
  "detection (Console msg) = (filter replayer_error msg \<noteq> [])"
| "detection e = False"

text \<open>One tick of the timer of session \<open>i\<close> whose capture fails.\<close>

definition capture_miss :: "nat \<Rightarrow> event list" where
  "capture_miss i = [TimerTick i, ScreenshotDone i None]"

subsection \<open>Example inputs\<close>

definition example_options :: partial_config where
  "example_options = \<lparr>p_fps = Some 10, p_headless = None, p_input = ''trace.json'',
     p_output = Some ''out.mp4'', p_rrwebPlayer = None\<rparr>"

definition falsy_options :: partial_config where
  "falsy_options = \<lparr>p_fps = Some 0, p_headless = Some False, p_input = ''trace.json'',
     p_output = Some [], p_rrwebPlayer = None\<rparr>"

definition bare_options :: partial_config where
  "bare_options = \<lparr>p_fps = None, p_headless = None, p_input = ''trace.json'',
     p_output = None, p_rrwebPlayer = None\<rparr>"

definition sized_options :: "int \<Rightarrow> int \<Rightarrow> partial_config" where
  "sized_options w h = \<lparr>p_fps = None, p_headless = None, p_input = ''trace.json'',
     p_output = None,
     p_rrwebPlayer = Some \<lparr>width = Some w, height = Some h, autoPlay = None,
       showController = None, startDelayTime = None\<rparr>\<rparr>"

definition boom :: console_message where
  "boom = \<lparr>msg_type = ''error'', msg_text = ''Replayer Uncaught Error:boom''\<rparr>"

text \<open>A trace whose only event carries the text \<open></SCRIPT><script>alert(1)</script>\<close>.\<close>

definition shouting :: json where
  "shouting = JArray [JObject [(''type'', JNumber 5),
     (''data'', JObject [(''tag'', JString ''</SCRIPT><script>alert(1)</script>'')]),
     (''timestamp'', JNumber 0)]]"

section \<open>The effective configuration\<close>

lemma launch_headless_cb: "launch_headless (cb file error s) = launch_headless s"
  by (simp add: cb_def)

lemma launch_headless_getConsoleMsg:
  "launch_headless (getConsoleMsg msg s) = launch_headless s"
  by (induction msg arbitrary: s) (simp_all add: finishRecording_def launch_headless_cb)

lemma launch_headless_step:
  "launch_headless (step env config s e) =
     (if e = InitLaunch then Some (headless config) else launch_headless s)"
  by (cases e)
     (simp_all add: init_launch_def init_catch_def startRecording_def Let_def
        startRecording_resume_def finishRecording_def timer_tick_def screenshot_done_def
        on_close_def on_error_def on_stdin_error_def launch_headless_cb
        launch_headless_getConsoleMsg split: list.splits)

lemma launch_headless_run:
  "launch_headless s = Some (headless config) \<Longrightarrow>
   launch_headless (run env config s evs) = Some (headless config)"
  unfolding run_def
  by (induction evs arbitrary: s) (simp_all add: launch_headless_step)

lemma headless_constructor: "headless (RRvideo_constructor c) = True"
  by (cases c; cases "p_headless (the c)")
     (auto simp add: RRvideo_constructor_def or_else_def opt_field_def defaultConfig_def)

text \<open>
  Claim C4. An option that is set to a falsy value is replaced by its default: \<open>fps: 0\<close>
  gives 15, \<open>headless: false\<close> gives \<open>true\<close>, \<open>output: ""\<close> gives \<open>rrvideo-output.mp4\<close>.
  So \<open>headless\<close> is \<open>true\<close> whatever the caller's options are, and every run launches
  the browser with \<open>headless: true\<close>.
\<close>

theorem falsy_option_replaced_by_default:
  "(p_fps p = Some 0 \<longrightarrow> fps (RRvideo_constructor (Some p)) = 15) \<and>
   (p_headless p = Some False \<longrightarrow> headless (RRvideo_constructor (Some p)) = True) \<and>
   (p_output p = Some [] \<longrightarrow> output (RRvideo_constructor (Some p)) = ''rrvideo-output.mp4'') \<and>
   headless (RRvideo_constructor c) = True \<and>
   launch_headless (run env (RRvideo_constructor c) new_RRvideo (InitLaunch # evs)) = Some True"
proof -
  have "launch_headless (run env (RRvideo_constructor c) new_RRvideo (InitLaunch # evs)) =
      Some (headless (RRvideo_constructor c))"
    using launch_headless_run [of "init_launch (RRvideo_constructor c) new_RRvideo"
        "RRvideo_constructor c" env evs]
    by (simp add: run_def init_launch_def)
  then show ?thesis
    by (simp add: headless_constructor)
       (simp add: RRvideo_constructor_def or_else_def opt_field_def defaultConfig_def)
qed

theorem falsy_option_replaced_by_default_witness:
  "fps (RRvideo_constructor (Some falsy_options)) = 15 \<and>
   headless (RRvideo_constructor (Some falsy_options)) = True \<and>
   output (RRvideo_constructor (Some falsy_options)) = ''rrvideo-output.mp4'' \<and>
   transformToVideo posix_env falsy_options [] = None \<and>
   launch_headless (run posix_env (RRvideo_constructor (Some falsy_options)) new_RRvideo
     [InitLaunch]) = Some True"
  using falsy_option_replaced_by_default [of falsy_options "Some falsy_options" posix_env "[]"]
  by (simp add: falsy_options_def transformToVideo_def run_def init_launch_def new_RRvideo_def)

text \<open>
  Claim C9. An option that is not provided takes its default: frame rate 15, headless
  \<open>true\<close>, output \<open>rrvideo-output.mp4\<close>; in the page, a start delay of 1000 ms and
  \<open>autoPlay: false\<close> in the properties of the player.
\<close>

theorem defaults_when_not_provided:
  "(p_fps p = None \<longrightarrow> fps (RRvideo_constructor (Some p)) = 15) \<and>
   (p_headless p = None \<longrightarrow> headless (RRvideo_constructor (Some p)) = True) \<and>
   (p_output p = None \<longrightarrow> output (RRvideo_constructor (Some p)) = ''rrvideo-output.mp4'') \<and>
   (p_rrwebPlayer p = None \<longrightarrow>
      page_start_delay (rrwebPlayer (RRvideo_constructor (Some p))) = Some 1000 \<and>
      props_autoPlay (rrwebPlayer (RRvideo_constructor (Some p))) = False) \<and>
   (startDelayTime userConfig = None \<longrightarrow> page_time userConfig = 1000) \<and>
   (autoPlay userConfig = None \<longrightarrow>
      props_autoPlay userConfig = False \<and>
      page_start_delay userConfig = Some (page_time userConfig))"
  by (simp add: RRvideo_constructor_def or_else_def opt_field_def defaultConfig_def
      emptyPlayer_def page_start_delay_def page_time_def props_autoPlay_def)

theorem defaults_when_not_provided_witness:
  "RRvideo_constructor (Some bare_options) =
     \<lparr>fps = 15, headless = True, input = ''trace.json'', output = ''rrvideo-output.mp4'',
      rrwebPlayer = emptyPlayer\<rparr> \<and>
   page_start_delay emptyPlayer = Some 1000 \<and> props_autoPlay emptyPlayer = False"
  using defaults_when_not_provided [of bare_options emptyPlayer]
  by (simp add: bare_options_def RRvideo_constructor_def or_else_def opt_field_def
      defaultConfig_def emptyPlayer_def)

section \<open>Starting to record\<close>

lemma example_config:
  "RRvideo_constructor (Some example_options) =
     \<lparr>fps = 10, headless = True, input = ''trace.json'', output = ''out.mp4'',
      rrwebPlayer = emptyPlayer\<rparr>"
  by (simp add: example_options_def RRvideo_constructor_def or_else_def opt_field_def
      defaultConfig_def)

lemma example_started:
  "run posix_env (RRvideo_constructor (Some example_options)) new_RRvideo
     [InitLaunch, OnReplayStart, ElementQueried True] =
   \<lparr>state = Recording, processError = None, launch_headless = Some True,
    browser_close_calls = 0, selecting = [],
    sessions = [\<lparr>wrapperEl = ''.replayer-wrapper'', command = ''ffmpeg'',
      args = [''-framerate'', ''10'', ''-f'', ''image2pipe'', ''-i'', ''-'', ''-y'', ''out.mp4''],
      outputPath = ''/work/out.mp4'', timer_delay = (1000, 10), timer_set = True,
      screenshots = 0, capturing = 0, stdin_written = [], stdin_end_calls = 0\<rparr>],
    cb_calls = [], promise = None\<rparr>"
  by (simp add: example_config run_def new_RRvideo_def init_launch_def startRecording_def
      startRecording_resume_def emptyPlayer_def posix_env_def Number_toString_def digit_char_def)

lemma run_append: "run env config s (xs @ ys) = run env config (run env config s xs) ys"
  by (simp add: run_def)

text \<open>
  Claim C7, as the source has it. The claim says that \<open>.rr-player\<close> is selected exactly
  when a width and a height were configured. A configured width of \<open>0\<close> is falsy: with
  \<open>width: 0\<close> and \<open>height: 768\<close>, both configured, the selector is \<open>.replayer-wrapper\<close>.
\<close>

theorem explicit_zero_width_default_selector:
  "width (rrwebPlayer (RRvideo_constructor (Some (sized_options 0 768)))) = Some 0 \<and>
   height (rrwebPlayer (RRvideo_constructor (Some (sized_options 0 768)))) = Some 768 \<and>
   selecting (run posix_env (RRvideo_constructor (Some (sized_options 0 768))) new_RRvideo
       [InitLaunch, OnReplayStart]) = [''.replayer-wrapper'']"
  by (simp add: run_def sized_options_def RRvideo_constructor_def or_else_def opt_field_def
      defaultConfig_def new_RRvideo_def init_launch_def startRecording_def)

text \<open>
  Claim C7, amended. At the transition to \<open>recording\<close> the selector handed to \<open>page.$\<close> is
  \<open>.rr-player\<close> exactly when the player options have a width and a height that are both
  configured and non-zero, and \<open>.replayer-wrapper\<close> otherwise.
\<close>

theorem selector_by_truthy_size:
  "state (startRecording config s) = Recording \<and>
   selecting (startRecording config s) = selecting s @
     [if (\<exists>w h. width (rrwebPlayer config) = Some w \<and> w \<noteq> 0 \<and>
                 height (rrwebPlayer config) = Some h \<and> h \<noteq> 0)
      then ''.rr-player'' else ''.replayer-wrapper'']"
  by (cases "width (rrwebPlayer config)"; cases "height (rrwebPlayer config)")
     (simp_all add: startRecording_def)

theorem selector_by_truthy_size_witness:
  "selecting (startRecording (RRvideo_constructor (Some (sized_options 1024 768))) new_RRvideo) =
     [''.rr-player''] \<and>
   selecting (startRecording (RRvideo_constructor (Some (sized_options 0 768))) new_RRvideo) =
     [''.replayer-wrapper'']"
  using selector_by_truthy_size [of "RRvideo_constructor (Some (sized_options 1024 768))" new_RRvideo]
    selector_by_truthy_size [of "RRvideo_constructor (Some (sized_options 0 768))" new_RRvideo]
  by (simp add: sized_options_def RRvideo_constructor_def or_else_def opt_field_def
      defaultConfig_def new_RRvideo_def)

text \<open>
  Claim C8. When \<open>startRecording\<close> resumes with an element, it spawns \<open>ffmpeg\<close> with the
  arguments \<open>-framerate\<close>, the configured frame rate, \<open>-f image2pipe -i -\<close>, \<open>-y\<close> and the
  configured output path, in this order, whatever the configuration is.
\<close>

theorem encoder_arguments:
  "selecting s \<noteq> [] \<Longrightarrow>
   map (\<lambda>p. command p # args p) (sessions (step env config s (ElementQueried True))) =
   map (\<lambda>p. command p # args p) (sessions s) @
     [[''ffmpeg'', ''-framerate'', Number_toString (fps config),
       ''-f'', ''image2pipe'', ''-i'', ''-'', ''-y'', output config]]"
  by (cases "selecting s") (auto simp add: startRecording_resume_def)

theorem encoder_arguments_witness:
  "map (\<lambda>p. command p # args p)
     (sessions (run posix_env (RRvideo_constructor (Some example_options)) new_RRvideo
        [InitLaunch, OnReplayStart, ElementQueried True])) =
   [[''ffmpeg'', ''-framerate'', ''10'', ''-f'', ''image2pipe'', ''-i'', ''-'', ''-y'', ''out.mp4'']]"
proof -
  let ?c = "RRvideo_constructor (Some example_options)"
  let ?s = "run posix_env ?c new_RRvideo [InitLaunch, OnReplayStart]"
  have s: "selecting ?s \<noteq> []" "sessions ?s = []"
    by (simp_all add: run_def init_launch_def startRecording_def new_RRvideo_def)
  have "run posix_env ?c new_RRvideo [InitLaunch, OnReplayStart, ElementQueried True] =
      step posix_env ?c ?s (ElementQueried True)"
    by (simp add: run_def)
  with encoder_arguments [OF s(1), of posix_env ?c] s(2) show ?thesis
    by (simp add: example_config Number_toString_def digit_char_def)
qed

section \<open>The capture timer\<close>

lemma capture_miss_round:
  assumes "state s = Recording" "\<not> truthy_error (processError s)"
    "i < length (sessions s)" "timer_set (sessions s ! i)"
  shows "run env config s (capture_miss i) =
     s\<lparr>sessions := (sessions s)
       [i := (sessions s ! i)\<lparr>screenshots := Suc (screenshots (sessions s ! i))\<rparr>]\<rparr>"
  using assms
  by (simp add: run_def capture_miss_def timer_tick_def screenshot_done_def Let_def)

lemma capture_miss_rounds:
  "state s = Recording \<Longrightarrow> \<not> truthy_error (processError s) \<Longrightarrow>
   i < length (sessions s) \<Longrightarrow> timer_set (sessions s ! i) \<Longrightarrow>
   run env config s (concat (replicate n (capture_miss i))) =
     s\<lparr>sessions := (sessions s)
       [i := (sessions s ! i)\<lparr>screenshots := screenshots (sessions s ! i) + n\<rparr>]\<rparr>"
proof (induction n arbitrary: s)
  case 0
  then show ?case by (simp add: run_def)
next
  case (Suc n)
  let ?s1 = "s\<lparr>sessions := (sessions s)
    [i := (sessions s ! i)\<lparr>screenshots := Suc (screenshots (sessions s ! i))\<rparr>]\<rparr>"
  have one: "run env config s (capture_miss i) = ?s1"
    using Suc.prems by (rule capture_miss_round)
  have "run env config ?s1 (concat (replicate n (capture_miss i))) =
      ?s1\<lparr>sessions := (sessions ?s1)
        [i := (sessions ?s1 ! i)\<lparr>screenshots := screenshots (sessions ?s1 ! i) + n\<rparr>]\<rparr>"
    using Suc.prems by (intro Suc.IH) simp_all
  then show ?case
    using Suc.prems by (simp add: run_append one)
qed

lemma capture_events_settle_nothing:
  "promise (step env config s (TimerTick j)) = promise s \<and>
   cb_calls (step env config s (TimerTick j)) = cb_calls s \<and>
   state (step env config s (TimerTick j)) = state s \<and>
   processError (step env config s (TimerTick j)) = processError s \<and>
   promise (step env config s (ScreenshotDone j b)) = promise s \<and>
   cb_calls (step env config s (ScreenshotDone j b)) = cb_calls s \<and>
   state (step env config s (ScreenshotDone j b)) = state s \<and>
   processError (step env config s (ScreenshotDone j b)) = processError s"
  by (simp add: timer_tick_def screenshot_done_def Let_def)

text \<open>
  Claim C5. While the state is \<open>recording\<close> and no error is latched, any number \<open>n\<close> of
  ticks whose capture fails leave the run as it was, but for the count of the \<open>n\<close>
  screenshots asked for, one per tick: the state is still \<open>recording\<close>, the timer is still
  set, nothing was written to the encoder or closed, the callback was not called and the
  promise is as before. No tick and no end of a capture, failed or not, ever calls the
  callback, settles the promise, changes the state or latches an error: only the other
  events do.
\<close>

theorem capture_misses_are_skipped:
  "(state s = Recording \<and> \<not> truthy_error (processError s) \<and>
    i < length (sessions s) \<and> timer_set (sessions s ! i) \<longrightarrow>
      run env config s (concat (replicate n (capture_miss i))) =
        s\<lparr>sessions := (sessions s)
          [i := (sessions s ! i)\<lparr>screenshots := screenshots (sessions s ! i) + n\<rparr>]\<rparr>) \<and>
   promise (step env config s (TimerTick j)) = promise s \<and>
   cb_calls (step env config s (TimerTick j)) = cb_calls s \<and>
   state (step env config s (TimerTick j)) = state s \<and>
   processError (step env config s (TimerTick j)) = processError s \<and>
   promise (step env config s (ScreenshotDone j b)) = promise s \<and>
   cb_calls (step env config s (ScreenshotDone j b)) = cb_calls s \<and>
   state (step env config s (ScreenshotDone j b)) = state s \<and>
   processError (step env config s (ScreenshotDone j b)) = processError s"
  using capture_miss_rounds [of s i env config n] capture_events_settle_nothing [of env config s j b]
  by blast

theorem capture_misses_are_skipped_witness:
  "run posix_env (RRvideo_constructor (Some example_options))
     (run posix_env (RRvideo_constructor (Some example_options)) new_RRvideo
        [InitLaunch, OnReplayStart, ElementQueried True])
     (concat (replicate 3 (capture_miss 0))) =
   \<lparr>state = Recording, processError = None, launch_headless = Some True,
    browser_close_calls = 0, selecting = [],
    sessions = [\<lparr>wrapperEl = ''.replayer-wrapper'', command = ''ffmpeg'',
      args = [''-framerate'', ''10'', ''-f'', ''image2pipe'', ''-i'', ''-'', ''-y'', ''out.mp4''],
      outputPath = ''/work/out.mp4'', timer_delay = (1000, 10), timer_set = True,
      screenshots = 3, capturing = 0, stdin_written = [], stdin_end_calls = 0\<rparr>],
    cb_calls = [], promise = None\<rparr>"
  using capture_misses_are_skipped [of
      "run posix_env (RRvideo_constructor (Some example_options)) new_RRvideo
        [InitLaunch, OnReplayStart, ElementQueried True]"
      0 posix_env "RRvideo_constructor (Some example_options)" 3]
  by (simp add: example_started)

section \<open>The single outcome\<close>

subsection \<open>The marker\<close>

lemma indexOf_from_ge: "indexOf_from k t pat = - 1 \<or> int k \<le> indexOf_from k t pat"
  by (induction t arbitrary: k) (simp_all, force)

lemma indexOf_from_start: "indexOf_from k t pat = int k \<longleftrightarrow> prefix pat t"
proof (cases t)
  case Nil
  then show ?thesis by simp
next
  case (Cons c cs)
  have "indexOf_from (Suc k) cs pat \<noteq> int k"
    using indexOf_from_ge [of "Suc k" cs pat] by auto
  with Cons show ?thesis by simp
qed

lemma indexOf_zero: "indexOf t pat = 0 \<longleftrightarrow> prefix pat t"
  using indexOf_from_start [of 0 t pat] by (simp add: indexOf_def)

lemma replayer_error_prefix:
  "replayer_error m \<longleftrightarrow> msg_type m = ''error'' \<and> prefix marker (msg_text m)"
  by (simp add: replayer_error_def indexOf_zero)

lemma replayer_error_text: "replayer_error m \<Longrightarrow> msg_text m \<noteq> []"
  by (auto simp add: replayer_error_prefix marker_def)

subsection \<open>The promise obeys the first call of the callback\<close>

lemma promise_cb:
  "promise (cb file error s) =
     (case promise s of
        Some r \<Rightarrow> Some r
      | None \<Rightarrow> Some (if truthy_error error then Rejected (the error) else Resolved file))"
  by (simp add: cb_def)

lemma promise_getConsoleMsg:
  "promise (getConsoleMsg msg s) =
     (case promise s of
        Some r \<Rightarrow> Some r
      | None \<Rightarrow> announces s (Console msg))"
proof (induction msg arbitrary: s)
  case Nil
  then show ?case by (simp split: option.splits)
next
  case (Cons m msg)
  show ?case
  proof (cases "replayer_error m")
    case True
    then show ?thesis
      using replayer_error_text [OF True]
      by (simp add: Cons.IH promise_cb finishRecording_def split: option.splits)
  next
    case False
    then show ?thesis
      by (simp add: Cons.IH split: option.splits)
  qed
qed

lemma promise_step:
  "promise (step env config s e) =
     (case promise s of
        Some r \<Rightarrow> Some r
      | None \<Rightarrow> if truthy_error (processError s) then
           (case e of InitThrows m \<Rightarrow> announces s e | Console msg \<Rightarrow> announces s e | _ \<Rightarrow> None)
         else announces s e)"
  by (cases e)
     (simp_all add: promise_getConsoleMsg promise_cb init_launch_def init_catch_def
        startRecording_def startRecording_resume_def finishRecording_def timer_tick_def
        screenshot_done_def on_close_def on_error_def on_stdin_error_def Let_def
        split: option.splits list.splits)

lemma settled_step: "promise s = Some r \<Longrightarrow> promise (step env config s e) = Some r"
  by (simp add: promise_step)

lemma settled_run: "promise s = Some r \<Longrightarrow> promise (run env config s evs) = Some r"
  unfolding run_def
  by (induction evs arbitrary: s) (simp_all add: settled_step)

text \<open>
  In every state that a run reaches, the promise holds what the first call of the callback
  gave it, and an error is latched in \<open>processError\<close> only when the promise is settled.
\<close>

lemma first_write_append:
  "first_write (calls @ [(file, error)]) =
     (case first_write calls of
        Some r \<Rightarrow> Some r
      | None \<Rightarrow> Some (if truthy_error error then Rejected (the error) else Resolved file))"
  by (cases calls) auto

lemma latched_cb:
  "promise s = first_write (cb_calls s) \<Longrightarrow> latched (cb file error s)"
  by (simp add: latched_def cb_def first_write_append split: option.splits)

lemma latched_cb_same: "latched s \<Longrightarrow> latched (cb file error s)"
  by (rule latched_cb) (simp add: latched_def)

lemma latched_cb_field:
  "latched s \<Longrightarrow> latched (cb file error (s\<lparr>processError := e\<rparr>))"
  by (rule latched_cb) (simp add: latched_def)

lemma latched_getConsoleMsg: "latched s \<Longrightarrow> latched (getConsoleMsg msg s)"
proof (induction msg arbitrary: s)
  case Nil
  then show ?case by simp
next
  case (Cons m msg)
  have "latched (cb [] (Some (Str (msg_text m))) ((finishRecording s)\<lparr>processError := None\<rparr>))"
    using Cons.prems by (intro latched_cb) (simp add: latched_def finishRecording_def)
  with Cons show ?case by simp
qed

lemma latched_step: "latched s \<Longrightarrow> latched (step env config s e)"
proof (cases e)
  case (Console msg)
  assume "latched s"
  with Console show ?thesis by (simp add: latched_getConsoleMsg)
next
  case (InitThrows m)
  assume "latched s"
  with InitThrows show ?thesis by (simp add: init_catch_def latched_cb_same)
next
  case (FfmpegClose i)
  assume "latched s"
  with FfmpegClose show ?thesis by (simp add: on_close_def latched_cb_same)
next
  case (FfmpegError i m)
  assume "latched s"
  with FfmpegError show ?thesis by (simp add: on_error_def latched_cb_field)
next
  case (StdinError i m)
  assume "latched s"
  with StdinError show ?thesis by (simp add: on_stdin_error_def latched_cb_field)
qed (simp_all add: latched_def init_launch_def startRecording_def startRecording_resume_def
      finishRecording_def timer_tick_def screenshot_done_def Let_def split: list.splits)

lemma latched_run: "latched s \<Longrightarrow> latched (run env config s evs)"
  unfolding run_def
  by (induction evs arbitrary: s) (simp_all add: latched_step)

lemma latched_new: "latched new_RRvideo"
  by (simp add: latched_def new_RRvideo_def)

lemma second_error_discarded:
  "step env config (step env config s (FfmpegError i m)) (StdinError i m') =
     step env config s (FfmpegError i m) \<and>
   step env config (step env config s (StdinError i m')) (FfmpegError i m) =
     step env config s (StdinError i m')"
  by (simp add: on_error_def on_stdin_error_def cb_def)

text \<open>
  Claim C1. In the state \<open>s\<close> that any run reaches, the promise is what the first call of
  the callback made it. While it is pending, the next event settles it exactly when that
  event is one of the five signals (the failure of \<open>init\<close>, a console message with the
  marker, the end of the encoder, an error of the encoder, an error of its input), and
  then with the outcome of this signal. Once it is settled, no later events change it.
  Of an error of the encoder and an error of its input that arrive one after the other,
  in either order, the second changes nothing at all.
\<close>

theorem terminal_result_latch:
  assumes "s = run env config new_RRvideo evs"
  shows "promise s = first_write (cb_calls s) \<and>
    (promise s = None \<longrightarrow> promise (step env config s e) = announces s e) \<and>
    (promise s = Some r \<longrightarrow> promise (run env config s later) = Some r) \<and>
    step env config (step env config s (FfmpegError i m)) (StdinError i m') =
      step env config s (FfmpegError i m) \<and>
    step env config (step env config s (StdinError i m')) (FfmpegError i m) =
      step env config s (StdinError i m')"
proof -
  have l: "latched s"
    using assms latched_run [OF latched_new] by simp
  then have "promise s = first_write (cb_calls s)"
    by (simp add: latched_def)
  moreover have "promise s = None \<longrightarrow> promise (step env config s e) = announces s e"
    using l by (simp add: latched_def promise_step)
  moreover have "promise s = Some r \<longrightarrow> promise (run env config s later) = Some r"
    by (simp add: settled_run)
  ultimately show ?thesis
    using second_error_discarded by blast
qed


lemma boom_detected: "replayer_error boom"
  by (simp add: replayer_error_prefix boom_def marker_def)

theorem terminal_result_latch_witness:
  "promise (run posix_env (RRvideo_constructor (Some example_options)) new_RRvideo
     [InitLaunch, OnReplayStart, ElementQueried True]) = None \<and>
   promise (run posix_env (RRvideo_constructor (Some example_options)) new_RRvideo
     [InitLaunch, OnReplayStart, ElementQueried True, Console [boom]]) =
     Some (Rejected (Str ''Replayer Uncaught Error:boom'')) \<and>
   promise (run posix_env (RRvideo_constructor (Some example_options)) new_RRvideo
     [InitLaunch, OnReplayStart, ElementQueried True, Console [boom], TimerTick 0, FfmpegClose 0]) =
     Some (Rejected (Str ''Replayer Uncaught Error:boom''))"
proof -
  let ?c = "RRvideo_constructor (Some example_options)"
  let ?s = "run posix_env ?c new_RRvideo [InitLaunch, OnReplayStart, ElementQueried True]"
  let ?s' = "run posix_env ?c new_RRvideo
    [InitLaunch, OnReplayStart, ElementQueried True, Console [boom]]"
  have pending: "promise ?s = None"
    by (simp add: example_started)
  have "promise (step posix_env ?c ?s (Console [boom])) = announces ?s (Console [boom])"
    using terminal_result_latch [of ?s posix_env ?c
        "[InitLaunch, OnReplayStart, ElementQueried True]" "Console [boom]"] pending
    by blast
  then have rejected: "promise ?s' = Some (Rejected (Str ''Replayer Uncaught Error:boom''))"
    by (simp add: run_def boom_detected) (simp add: boom_def)
  have "promise (run posix_env ?c ?s' [TimerTick 0, FfmpegClose 0]) =
      Some (Rejected (Str ''Replayer Uncaught Error:boom''))"
    using terminal_result_latch [where s = ?s' and env = posix_env and config = ?c
        and evs = "[InitLaunch, OnReplayStart, ElementQueried True, Console [boom]]"
        and r = "Rejected (Str ''Replayer Uncaught Error:boom'')"
        and later = "[TimerTick 0, FfmpegClose 0]"]
      rejected
    by blast
  then show ?thesis
    using pending rejected by (simp add: run_def)
qed

text \<open>
  The guard on \<open>processError\<close> alone is not the latch: \<open>getConsoleMsg\<close> resets
  \<open>processError\<close> to \<open>null\<close>, the capture timer then closes the input of the encoder, and
  when the encoder ends the callback is called a second time. The settled promise
  ignores that call, as the theorem above says.
\<close>

lemma callback_called_again_after_console_error:
  "cb_calls (run posix_env (RRvideo_constructor (Some example_options)) new_RRvideo
     [InitLaunch, OnReplayStart, ElementQueried True, Console [boom], TimerTick 0, FfmpegClose 0]) =
   [([], Some (Str ''Replayer Uncaught Error:boom'')), (''/work/out.mp4'', None)]"
proof -
  let ?c = "RRvideo_constructor (Some example_options)"
  let ?s = "run posix_env ?c new_RRvideo [InitLaunch, OnReplayStart, ElementQueried True]"
  have "run posix_env ?c new_RRvideo
     [InitLaunch, OnReplayStart, ElementQueried True, Console [boom], TimerTick 0, FfmpegClose 0] =
    run posix_env ?c ?s [Console [boom], TimerTick 0, FfmpegClose 0]"
    by (simp add: run_def)
  moreover have "cb_calls (run posix_env ?c ?s [Console [boom], TimerTick 0, FfmpegClose 0]) =
    [([], Some (Str (msg_text boom))), (''/work/out.mp4'', None)]"
    unfolding example_started
    by (simp add: run_def boom_detected finishRecording_def cb_def timer_tick_def on_close_def)
  ultimately show ?thesis
    by (simp add: boom_def)
qed

subsection \<open>Console errors\<close>

text \<open>
  Claim C2, as the source has it. The claim says that the failure carries the text after
  the marker. For the message \<open>Replayer Uncaught Error:boom\<close> the promise is rejected
  with the whole text of the message, marker included, and not with \<open>boom\<close>.
\<close>

theorem console_error_rejects_with_whole_text:
  "transformToVideo posix_env example_options [Console [boom]] =
     Some (Rejected (Str ''Replayer Uncaught Error:boom'')) \<and>
   transformToVideo posix_env example_options [Console [boom]] \<noteq> Some (Rejected (Str ''boom'')) \<and>
   transformToVideo posix_env example_options [Console [boom]] \<noteq> Some (Rejected (Error ''boom''))"
  by (simp add: transformToVideo_def run_def init_launch_def boom_detected finishRecording_def
      cb_def)
     (simp add: new_RRvideo_def boom_def)

text \<open>
  Claim C2, amended. A console message of type \<open>error\<close> whose text begins with the marker
  \<open>Replayer Uncaught Error:\<close>, in whatever state it arrives, sets the state to \<open>closed\<close>,
  calls \<open>browser.close\<close> and calls the callback with the whole text of the message,
  marker included; if the promise is still pending, it is rejected with that text.
\<close>

theorem console_error_closes_and_rejects:
  assumes "msg_type m = ''error''" "prefix marker (msg_text m)"
  shows "state (step env config s (Console [m])) = Closed \<and>
    browser_close_calls (step env config s (Console [m])) = Suc (browser_close_calls s) \<and>
    cb_calls (step env config s (Console [m])) = cb_calls s @ [([], Some (Str (msg_text m)))] \<and>
    (promise s = None \<longrightarrow>
       promise (step env config s (Console [m])) = Some (Rejected (Str (msg_text m))))"
proof -
  have d: "replayer_error m"
    using assms by (simp add: replayer_error_prefix)
  then have "msg_text m \<noteq> []"
    by (rule replayer_error_text)
  with d show ?thesis
    by (simp add: finishRecording_def cb_def)
qed

theorem console_error_closes_and_rejects_witness:
  "state (step posix_env (RRvideo_constructor (Some example_options)) new_RRvideo (Console [boom])) =
     Closed \<and>
   browser_close_calls
     (step posix_env (RRvideo_constructor (Some example_options)) new_RRvideo (Console [boom])) = 1 \<and>
   promise (step posix_env (RRvideo_constructor (Some example_options)) new_RRvideo (Console [boom])) =
     Some (Rejected (Str ''Replayer Uncaught Error:boom''))"
proof -
  have "msg_type boom = ''error''" and "prefix marker (msg_text boom)"
    by (simp_all add: boom_def marker_def)
  from console_error_closes_and_rejects [OF this, of posix_env
      "RRvideo_constructor (Some example_options)" new_RRvideo]
  show ?thesis
    by (simp add: new_RRvideo_def boom_def)
qed

section \<open>The lifecycle\<close>

lemma state_getConsoleMsg:
  "state (getConsoleMsg msg s) = state s \<or> state (getConsoleMsg msg s) = Closed"
proof (induction msg arbitrary: s)
  case Nil
  then show ?case by simp
next
  case (Cons m msg)
  show ?case
  proof (cases "replayer_error m")
    case True
    let ?s' = "cb [] (Some (Str (msg_text m))) ((finishRecording s)\<lparr>processError := None\<rparr>)"
    have "state ?s' = Closed"
      by (simp add: cb_def finishRecording_def)
    with Cons.IH [of ?s'] True show ?thesis by auto
  next
    case False
    with Cons.IH [of s] show ?thesis by simp
  qed
qed

lemma state_step:
  "state (step env config s e) =
     (if e = OnReplayStart then Recording else state (step env config s e)) \<and>
   (e \<noteq> OnReplayStart \<longrightarrow>
      state (step env config s e) = state s \<or> state (step env config s e) = Closed)"
  using state_getConsoleMsg
  by (cases e)
     (simp_all add: init_launch_def init_catch_def startRecording_def Let_def cb_def
        startRecording_resume_def finishRecording_def timer_tick_def screenshot_done_def
        on_close_def on_error_def on_stdin_error_def split: list.splits)

lemma rank_step:
  "e \<noteq> OnReplayStart \<Longrightarrow> rank (state s) \<le> rank (state (step env config s e))"
  using state_step [of env config s e] by (cases "state s") auto

lemma idle_step: "state (step env config s e) = Idle \<Longrightarrow> state s = Idle"
  using state_step [of env config s e] by (cases "e = OnReplayStart") auto

lemma idle_run: "state (run env config s evs) = Idle \<Longrightarrow> state s = Idle"
  unfolding run_def
  by (induction evs arbitrary: s) (auto dest: idle_step)

lemma rank_run:
  "OnReplayStart \<notin> set evs \<Longrightarrow> rank (state s) \<le> rank (state (run env config s evs))"
  unfolding run_def
proof (induction evs arbitrary: s)
  case Nil
  then show ?case by simp
next
  case (Cons e evs)
  have "rank (state s) \<le> rank (state (step env config s e))"
    using Cons.prems by (intro rank_step) auto
  also have "\<dots> \<le> rank (state (foldl (step env config) (step env config s e) evs))"
    using Cons.prems by (intro Cons.IH) auto
  finally show ?case by simp
qed

text \<open>
  Claim C3, as the source has it. The claim says that no sequence of signals moves the
  state from \<open>closed\<close> back to \<open>recording\<close>. \<open>startRecording\<close> assigns \<open>recording\<close> whatever
  the state is: a start signal that follows a finish signal reopens the recording.
\<close>

theorem start_after_finish_reopens:
  "state (run posix_env (RRvideo_constructor (Some example_options)) new_RRvideo
     [InitLaunch, OnReplayStart, OnReplayFinish]) = Closed \<and>
   state (run posix_env (RRvideo_constructor (Some example_options)) new_RRvideo
     [InitLaunch, OnReplayStart, OnReplayFinish, OnReplayStart]) = Recording"
  by (simp add: run_def init_launch_def startRecording_def finishRecording_def)

text \<open>
  Claim C3, amended. The state never returns to \<open>idle\<close>. Over events among which there is
  no start signal, the state only moves forward along \<open>idle\<close>, \<open>recording\<close>, \<open>closed\<close>. The
  one event that moves it backwards is a start signal in the state \<open>closed\<close>.
\<close>

theorem state_moves_forward_without_start:
  "(state (run env config s evs) = Idle \<longrightarrow> state s = Idle) \<and>
   (OnReplayStart \<notin> set evs \<longrightarrow> rank (state s) \<le> rank (state (run env config s evs))) \<and>
   (rank (state (step env config s e)) < rank (state s) \<longrightarrow> e = OnReplayStart \<and> state s = Closed)"
proof -
  have "e = OnReplayStart \<and> state s = Closed"
    if "rank (state (step env config s e)) < rank (state s)"
  proof -
    have e: "e = OnReplayStart"
      using that rank_step [of e s env config] by (cases "e = OnReplayStart") auto
    with that show ?thesis
      by (cases "state s") (simp_all add: startRecording_def)
  qed
  then show ?thesis
    using idle_run rank_run by blast
qed

theorem state_moves_forward_without_start_witness:
  "rank (state new_RRvideo) \<le> rank (state (run posix_env (RRvideo_constructor (Some example_options))
      new_RRvideo [InitLaunch, OnReplayFinish, Console [boom], TimerTick 0])) \<and>
   state (run posix_env (RRvideo_constructor (Some example_options)) new_RRvideo
      [InitLaunch, OnReplayFinish, Console [boom], TimerTick 0]) = Closed"
  using state_moves_forward_without_start [of posix_env "RRvideo_constructor (Some example_options)"
      new_RRvideo "[InitLaunch, OnReplayFinish, Console [boom], TimerTick 0]"]
  by (simp add: run_def init_launch_def finishRecording_def boom_detected cb_def)
     (simp add: new_RRvideo_def)

section \<open>Closing the input of the encoder\<close>

text \<open>
  The timer reads \<open>processError\<close> as it is at the tick. An error of an encoder process or
  of its input sets it; \<open>getConsoleMsg\<close> resets it to \<open>null\<close> (the source notes
  \<open>close ffmpeg\<close> there), so that the next tick closes the input of the encoder.
\<close>

lemma tick_when_not_recording:
  assumes "i < length (sessions s)" "timer_set (sessions s ! i)" "state s \<noteq> Recording"
  shows "\<not> timer_set (sessions (step env config s (TimerTick i)) ! i) \<and>
    stdin_end_calls (sessions (step env config s (TimerTick i)) ! i) =
      (if state s = Closed \<and> \<not> truthy_error (processError s)
       then Suc (stdin_end_calls (sessions s ! i)) else stdin_end_calls (sessions s ! i)) \<and>
    step env config (step env config s (TimerTick i)) (TimerTick i) =
      step env config s (TimerTick i)"
  using assms by (simp add: timer_tick_def Let_def)

lemma tick_with_error_never_ends:
  "truthy_error (processError s) \<Longrightarrow>
   stdin_end_calls (sessions (step env config s (TimerTick i)) ! i) =
     stdin_end_calls (sessions s ! i)"
  by (simp add: timer_tick_def Let_def)

lemma processError_cb: "processError (cb file error s) = processError s"
  by (simp add: cb_def)

lemma getConsoleMsg_none: "filter replayer_error msg = [] \<Longrightarrow> getConsoleMsg msg s = s"
  by (induction msg arbitrary: s) (simp_all split: if_splits)

lemma processError_getConsoleMsg:
  "processError (getConsoleMsg msg s) =
     (if filter replayer_error msg = [] then processError s else None)"
proof (induction msg arbitrary: s)
  case Nil
  then show ?case by simp
next
  case (Cons m msg)
  show ?case
  proof (cases "replayer_error m")
    case True
    then show ?thesis
      by (simp add: Cons.IH processError_cb finishRecording_def)
  next
    case False
    then show ?thesis
      by (simp add: Cons.IH)
  qed
qed

lemma state_after_detection:
  "filter replayer_error msg \<noteq> [] \<Longrightarrow> state (getConsoleMsg msg s) = Closed"
proof (induction msg arbitrary: s)
  case Nil
  then show ?case by simp
next
  case (Cons m msg)
  show ?case
  proof (cases "replayer_error m")
    case True
    let ?s' = "cb [] (Some (Str (msg_text m))) ((finishRecording s)\<lparr>processError := None\<rparr>)"
    have c: "state ?s' = Closed"
      by (simp add: cb_def finishRecording_def)
    show ?thesis
    proof (cases "filter replayer_error msg = []")
      case True
      with \<open>replayer_error m\<close> c show ?thesis
        by (simp add: getConsoleMsg_none)
    next
      case False
      with \<open>replayer_error m\<close> Cons.IH [of ?s'] show ?thesis
        by simp
    qed
  next
    case False
    with Cons show ?thesis by simp
  qed
qed

lemma error_stays_step:
  "truthy_error (processError s) \<Longrightarrow> \<not> detection e \<Longrightarrow>
   processError (step env config s e) = processError s"
  by (cases e)
     (simp_all add: init_launch_def init_catch_def startRecording_def Let_def processError_cb
        startRecording_resume_def finishRecording_def timer_tick_def screenshot_done_def
        on_close_def on_error_def on_stdin_error_def getConsoleMsg_none split: list.splits)

lemma error_stays_run:
  "truthy_error (processError s) \<Longrightarrow> \<forall>e\<in>set evs. \<not> detection e \<Longrightarrow>
   processError (run env config s evs) = processError s"
  unfolding run_def
  by (induction evs arbitrary: s) (simp_all add: error_stays_step)

lemma no_error_stays_step:
  "processError s = None \<Longrightarrow> \<not> encoder_error e \<Longrightarrow> processError (step env config s e) = None"
  by (cases e)
     (simp_all add: init_launch_def init_catch_def startRecording_def Let_def processError_cb
        startRecording_resume_def finishRecording_def timer_tick_def screenshot_done_def
        on_close_def processError_getConsoleMsg split: list.splits)

lemma no_error_stays_run:
  "processError s = None \<Longrightarrow> \<forall>e\<in>set evs. \<not> encoder_error e \<Longrightarrow>
   processError (run env config s evs) = None"
  unfolding run_def
  by (induction evs arbitrary: s) (simp_all add: no_error_stays_step)

lemma encoder_error_latches:
  "j < length (sessions s) \<Longrightarrow>
   truthy_error (processError (step env config s (FfmpegError j m))) \<and>
   truthy_error (processError (step env config s (StdinError j m)))"
  by (simp add: on_error_def on_stdin_error_def processError_cb)


lemma closed_stays_run:
  assumes "state s = Closed" "OnReplayStart \<notin> set evs"
  shows "state (run env config s evs) = Closed"
proof -
  have "rank (state s) \<le> rank (state (run env config s evs))"
    using assms(2) by (rule rank_run)
  with assms(1) show ?thesis
    by (cases "state (run env config s evs)") simp_all
qed

lemma after_encoder_error:
  assumes "j < length (sessions s)" "e \<in> {FfmpegError j m, StdinError j m}"
    "\<forall>e'\<in>set evs. \<not> detection e'"
  shows "truthy_error (processError (run env config s (e # evs)))"
proof -
  have "truthy_error (processError (step env config s e))"
    using assms(1,2) encoder_error_latches [of j s env config m] by auto
  then have "truthy_error (processError (run env config (step env config s e) evs))"
    using assms(3) by (simp add: error_stays_run)
  then show ?thesis
    by (simp add: run_def)
qed

lemma after_detection:
  assumes "detection d" "\<forall>e'\<in>set evs. \<not> encoder_error e' \<and> e' \<noteq> OnReplayStart"
  shows "processError (run env config s (d # evs)) = None \<and>
    state (run env config s (d # evs)) = Closed"
proof -
  obtain msg where d: "d = Console msg" and found: "filter replayer_error msg \<noteq> []"
    using assms(1) by (cases d) simp_all
  have "processError (step env config s d) = None" and "state (step env config s d) = Closed"
    using found by (simp_all add: d processError_getConsoleMsg state_after_detection)
  then have "processError (run env config (step env config s d) evs) = None"
    and "state (run env config (step env config s d) evs) = Closed"
    using assms(2) by (auto intro: no_error_stays_run closed_stays_run)
  then show ?thesis
    by (simp add: run_def)
qed

text \<open>
  Claim C6, as the source has it. The claim says that no close signal is sent when an error
  has been latched. An error of the encoder is latched in \<open>processError\<close> and rejects the
  promise; the console message with the marker that follows resets \<open>processError\<close>, and
  the next tick calls \<open>stdin.end\<close> of the encoder that failed.
\<close>

theorem input_closed_after_encoder_error:
  "processError (run posix_env (RRvideo_constructor (Some example_options)) new_RRvideo
     [InitLaunch, OnReplayStart, ElementQueried True, FfmpegError 0 ''crash'']) =
     Some (Error ''crash'') \<and>
   promise (run posix_env (RRvideo_constructor (Some example_options)) new_RRvideo
     [InitLaunch, OnReplayStart, ElementQueried True, FfmpegError 0 ''crash'', Console [boom]]) =
     Some (Rejected (Error ''crash'')) \<and>
   state (run posix_env (RRvideo_constructor (Some example_options)) new_RRvideo
     [InitLaunch, OnReplayStart, ElementQueried True, FfmpegError 0 ''crash'', Console [boom]]) =
     Closed \<and>
   map stdin_end_calls
     (sessions (run posix_env (RRvideo_constructor (Some example_options)) new_RRvideo
       [InitLaunch, OnReplayStart, ElementQueried True, FfmpegError 0 ''crash'', Console [boom]])) =
     [0] \<and>
   map stdin_end_calls
     (sessions (run posix_env (RRvideo_constructor (Some example_options)) new_RRvideo
       [InitLaunch, OnReplayStart, ElementQueried True, FfmpegError 0 ''crash'', Console [boom],
        TimerTick 0])) = [1]"
proof -
  let ?c = "RRvideo_constructor (Some example_options)"
  let ?s = "run posix_env ?c new_RRvideo [InitLaunch, OnReplayStart, ElementQueried True]"
  have split: "run posix_env ?c new_RRvideo
      ([InitLaunch, OnReplayStart, ElementQueried True] @ evs) = run posix_env ?c ?s evs" for evs
    by (rule run_append)
  have "processError (run posix_env ?c ?s [FfmpegError 0 ''crash'']) = Some (Error ''crash'')"
    and "promise (run posix_env ?c ?s [FfmpegError 0 ''crash'', Console [boom]]) =
      Some (Rejected (Error ''crash''))"
    and "state (run posix_env ?c ?s [FfmpegError 0 ''crash'', Console [boom]]) = Closed"
    and "map stdin_end_calls
      (sessions (run posix_env ?c ?s [FfmpegError 0 ''crash'', Console [boom]])) = [0]"
    and "map stdin_end_calls
      (sessions (run posix_env ?c ?s [FfmpegError 0 ''crash'', Console [boom], TimerTick 0])) = [1]"
    unfolding example_started
    by (simp_all add: run_def on_error_def cb_def boom_detected finishRecording_def
        timer_tick_def)
  then show ?thesis
    using split [of "[FfmpegError 0 ''crash'']"]
      split [of "[FfmpegError 0 ''crash'', Console [boom]]"]
      split [of "[FfmpegError 0 ''crash'', Console [boom], TimerTick 0]"]
    by simp
qed

text \<open>
  Claim C6, amended. A tick of a timer that is set, at a moment when the state is not
  \<open>recording\<close>, clears the timer, so that it is the only such tick, and calls \<open>stdin.end\<close>
  of its encoder once exactly when the state is \<open>closed\<close> and \<open>processError\<close> is \<open>null\<close> at
  that tick. After an error of an encoder process or of its input that no console message
  with the marker has followed, \<open>processError\<close> holds an error and no tick calls
  \<open>stdin.end\<close>. After a console message with the marker that no encoder error and no start
  signal have followed, \<open>processError\<close> is \<open>null\<close>, the state is \<open>closed\<close>, and the tick of a
  timer that is set calls \<open>stdin.end\<close>, whatever was latched before the message.
\<close>

theorem input_closed_by_processError:
  "(i < length (sessions s) \<and> timer_set (sessions s ! i) \<and> state s \<noteq> Recording \<longrightarrow>
      \<not> timer_set (sessions (step env config s (TimerTick i)) ! i) \<and>
      stdin_end_calls (sessions (step env config s (TimerTick i)) ! i) =
        (if state s = Closed \<and> \<not> truthy_error (processError s)
         then Suc (stdin_end_calls (sessions s ! i)) else stdin_end_calls (sessions s ! i)) \<and>
      step env config (step env config s (TimerTick i)) (TimerTick i) =
        step env config s (TimerTick i)) \<and>
   (j < length (sessions s) \<and> e \<in> {FfmpegError j m, StdinError j m} \<and>
    (\<forall>e'\<in>set evs. \<not> detection e') \<longrightarrow>
      truthy_error (processError (run env config s (e # evs))) \<and>
      stdin_end_calls (sessions (step env config (run env config s (e # evs)) (TimerTick i)) ! i) =
        stdin_end_calls (sessions (run env config s (e # evs)) ! i)) \<and>
   (detection d \<and> (\<forall>e'\<in>set evs. \<not> encoder_error e' \<and> e' \<noteq> OnReplayStart) \<and>
    i < length (sessions (run env config s (d # evs))) \<and>
    timer_set (sessions (run env config s (d # evs)) ! i) \<longrightarrow>
      processError (run env config s (d # evs)) = None \<and>
      state (run env config s (d # evs)) = Closed \<and>
      stdin_end_calls (sessions (step env config (run env config s (d # evs)) (TimerTick i)) ! i) =
        Suc (stdin_end_calls (sessions (run env config s (d # evs)) ! i)))"
proof (intro conjI impI)
  assume "i < length (sessions s) \<and> timer_set (sessions s ! i) \<and> state s \<noteq> Recording"
  then have t: "\<not> timer_set (sessions (step env config s (TimerTick i)) ! i) \<and>
    stdin_end_calls (sessions (step env config s (TimerTick i)) ! i) =
      (if state s = Closed \<and> \<not> truthy_error (processError s)
       then Suc (stdin_end_calls (sessions s ! i)) else stdin_end_calls (sessions s ! i)) \<and>
    step env config (step env config s (TimerTick i)) (TimerTick i) =
      step env config s (TimerTick i)"
    by (intro tick_when_not_recording) simp_all
  from t show "\<not> timer_set (sessions (step env config s (TimerTick i)) ! i)" by blast
  from t show "stdin_end_calls (sessions (step env config s (TimerTick i)) ! i) =
      (if state s = Closed \<and> \<not> truthy_error (processError s)
       then Suc (stdin_end_calls (sessions s ! i)) else stdin_end_calls (sessions s ! i))"
    by blast
  from t show "step env config (step env config s (TimerTick i)) (TimerTick i) =
      step env config s (TimerTick i)" by blast
next
  assume a: "j < length (sessions s) \<and> e \<in> {FfmpegError j m, StdinError j m} \<and>
    (\<forall>e'\<in>set evs. \<not> detection e')"
  then show l: "truthy_error (processError (run env config s (e # evs)))"
    by (intro after_encoder_error [of j s e m evs]) simp_all
  then show "stdin_end_calls
      (sessions (step env config (run env config s (e # evs)) (TimerTick i)) ! i) =
    stdin_end_calls (sessions (run env config s (e # evs)) ! i)"
    by (rule tick_with_error_never_ends)
next
  assume a: "detection d \<and> (\<forall>e'\<in>set evs. \<not> encoder_error e' \<and> e' \<noteq> OnReplayStart) \<and>
    i < length (sessions (run env config s (d # evs))) \<and>
    timer_set (sessions (run env config s (d # evs)) ! i)"
  then have c: "processError (run env config s (d # evs)) = None \<and>
    state (run env config s (d # evs)) = Closed"
    by (intro after_detection) simp_all
  from c show "processError (run env config s (d # evs)) = None" by blast
  from c show "state (run env config s (d # evs)) = Closed" by blast
  from a c show "stdin_end_calls
      (sessions (step env config (run env config s (d # evs)) (TimerTick i)) ! i) =
    Suc (stdin_end_calls (sessions (run env config s (d # evs)) ! i))"
    by (simp add: timer_tick_def Let_def)
qed

theorem input_closed_by_processError_witness:
  "map stdin_end_calls
     (sessions (run posix_env (RRvideo_constructor (Some example_options)) new_RRvideo
       [InitLaunch, OnReplayStart, ElementQueried True, StdinError 0 ''EPIPE'', OnReplayFinish,
        TimerTick 0])) = [0] \<and>
   map stdin_end_calls
     (sessions (run posix_env (RRvideo_constructor (Some example_options)) new_RRvideo
       [InitLaunch, OnReplayStart, ElementQueried True, Console [boom], ScreenshotDone 0 None,
        TimerTick 0])) = [1] \<and>
   map timer_set
     (sessions (run posix_env (RRvideo_constructor (Some example_options)) new_RRvideo
       [InitLaunch, OnReplayStart, ElementQueried True, OnReplayFinish, TimerTick 0])) = [False]"
proof -
  let ?c = "RRvideo_constructor (Some example_options)"
  let ?s = "run posix_env ?c new_RRvideo [InitLaunch, OnReplayStart, ElementQueried True]"
  let ?e = "run posix_env ?c ?s [StdinError 0 ''EPIPE'', OnReplayFinish]"
  let ?d = "run posix_env ?c ?s [Console [boom], ScreenshotDone 0 None]"
  let ?f = "run posix_env ?c ?s [OnReplayFinish]"
  let ?tick = "\<lambda>s. step posix_env ?c s (TimerTick 0)"
  have runs:
    "run posix_env ?c new_RRvideo [InitLaunch, OnReplayStart, ElementQueried True,
       StdinError 0 ''EPIPE'', OnReplayFinish, TimerTick 0] = ?tick ?e"
    "run posix_env ?c new_RRvideo [InitLaunch, OnReplayStart, ElementQueried True,
       Console [boom], ScreenshotDone 0 None, TimerTick 0] = ?tick ?d"
    "run posix_env ?c new_RRvideo [InitLaunch, OnReplayStart, ElementQueried True,
       OnReplayFinish, TimerTick 0] = ?tick ?f"
    by (simp_all only: run_def foldl.simps)
  have before: "map stdin_end_calls (sessions ?e) = [0]" "map stdin_end_calls (sessions ?d) = [0]"
    "0 < length (sessions ?s)" "0 < length (sessions ?d)" "timer_set (sessions ?d ! 0)"
    "0 < length (sessions ?f)" "timer_set (sessions ?f ! 0)" "state ?f \<noteq> Recording"
    unfolding example_started
    by (simp_all add: run_def on_stdin_error_def cb_def boom_detected finishRecording_def
        screenshot_done_def)
  have single: "length (sessions (?tick ?e)) = 1" "length (sessions ?e) = 1"
    "length (sessions (?tick ?d)) = 1" "length (sessions ?d) = 1"
    "length (sessions (?tick ?f)) = 1"
    unfolding example_started
    by (simp_all add: run_def on_stdin_error_def cb_def boom_detected finishRecording_def
        timer_tick_def screenshot_done_def)
  have one: "map g xs = [g (xs ! 0)]" if "length xs = 1"
    for g :: "recording_session \<Rightarrow> 'b" and xs
    using that by (cases xs) simp_all
  have "stdin_end_calls (sessions (?tick ?e) ! 0) = stdin_end_calls (sessions ?e ! 0)"
    using input_closed_by_processError [where s = ?s and j = 0 and e = "StdinError 0 ''EPIPE''"
        and m = "''EPIPE''" and evs = "[OnReplayFinish]" and i = 0 and env = posix_env
        and config = ?c] before(3)
    by (simp del: step.simps)
  then have "map stdin_end_calls (sessions (?tick ?e)) = map stdin_end_calls (sessions ?e)"
    by (simp only: one [OF single(1)] one [OF single(2)])
  then have first: "map stdin_end_calls (sessions (?tick ?e)) = [0]"
    by (simp only: before(1))
  have "stdin_end_calls (sessions (?tick ?d) ! 0) = Suc (stdin_end_calls (sessions ?d ! 0))"
    using input_closed_by_processError [where s = ?s and d = "Console [boom]"
        and evs = "[ScreenshotDone 0 None]" and i = 0 and env = posix_env and config = ?c]
      before(4,5)
    by (simp del: step.simps add: boom_detected)
  moreover have "stdin_end_calls (sessions ?d ! 0) = 0"
    using before(2) by (simp add: one [OF single(4)])
  ultimately have second: "map stdin_end_calls (sessions (?tick ?d)) = [1]"
    by (simp add: one [OF single(3)] del: step.simps)
  have "\<not> timer_set (sessions (?tick ?f) ! 0)"
    using input_closed_by_processError [where s = ?f and i = 0 and env = posix_env
        and config = ?c] before(6,7,8)
    by (simp del: step.simps)
  then have third: "map timer_set (sessions (?tick ?f)) = [False]"
    by (simp add: one [OF single(5)] del: step.simps)
  from first second third show ?thesis
    by (simp add: runs del: step.simps)
qed

section \<open>The events in the document\<close>

text \<open>
  What the replacement achieves: the text that \<open>getHtml\<close> writes for the events contains
  no \<open></script>\<close>, spelled as the pattern spells it.
\<close>

lemma script_close_facts: "script_close \<noteq> []" "length script_close = 9"
  by (simp_all add: script_close_def)

lemma escape_Nil: "escape_script_close [] = []"
  by (simp add: escape_script_close_def)

lemma escape_match:
  "prefix script_close (c # cs) \<Longrightarrow>
   escape_script_close (c # cs) = script_close_escaped @ escape_script_close (drop 8 cs)"
  by (simp add: escape_script_close_def script_close_facts)

lemma escape_other:
  "\<not> prefix script_close (c # cs) \<Longrightarrow>
   escape_script_close (c # cs) = c # escape_script_close cs"
  by (simp add: escape_script_close_def)

lemma escape_prefix_plain:
  "CHR ''<'' \<notin> set w \<Longrightarrow> prefix w (escape_script_close t) \<Longrightarrow> prefix w t"
proof (induction w arbitrary: t)
  case Nil
  then show ?case by simp
next
  case (Cons a w)
  show ?case
  proof (cases t)
    case Nil
    with Cons.prems show ?thesis by (simp add: escape_Nil)
  next
    case t: (Cons d ds)
    show ?thesis
    proof (cases "prefix script_close (d # ds)")
      case True
      then have "escape_script_close t = script_close_escaped @ escape_script_close (drop 8 ds)"
        unfolding t by (rule escape_match)
      with Cons.prems show ?thesis
        by (simp add: script_close_escaped_def)
    next
      case False
      then have "escape_script_close t = d # escape_script_close ds"
        unfolding t by (rule escape_other)
      with Cons.prems Cons.IH [of ds] t show ?thesis
        by simp
    qed
  qed
qed

lemma sublist_script_close_Cons:
  "c \<noteq> CHR ''<'' \<Longrightarrow> sublist script_close (c # w) \<longleftrightarrow> sublist script_close w"
  by (simp add: sublist_Cons_right script_close_def)

lemma escaped_no_script_close:
  "sublist script_close (script_close_escaped @ rest) \<longleftrightarrow> sublist script_close rest"
proof -
  have "sublist script_close (CHR ''<'' # CHR 0x5C # w) \<longleftrightarrow> sublist script_close (CHR 0x5C # w)"
    for w
    by (simp add: sublist_Cons_right [of _ "CHR ''<''"] script_close_def)
  then show ?thesis
    by (simp add: script_close_escaped_def sublist_script_close_Cons)
qed

lemma escape_no_script_close: "\<not> sublist script_close (escape_script_close t)"
proof (induction t rule: length_induct)
  case (1 t)
  show ?case
  proof (cases t)
    case Nil
    then show ?thesis by (simp add: escape_Nil script_close_def)
  next
    case t: (Cons c cs)
    show ?thesis
    proof (cases "prefix script_close (c # cs)")
      case True
      have "length (drop 8 cs) < length t"
        by (simp add: t)
      with 1 have "\<not> sublist script_close (escape_script_close (drop 8 cs))"
        by blast
      then show ?thesis
        unfolding t escape_match [OF True] by (simp add: escaped_no_script_close)
    next
      case False
      have "length cs < length t"
        by (simp add: t)
      with 1 have ih: "\<not> sublist script_close (escape_script_close cs)"
        by blast
      have "\<not> prefix script_close (c # escape_script_close cs)"
      proof
        assume "prefix script_close (c # escape_script_close cs)"
        then have c: "c = CHR ''<''" and rest: "prefix ''/script>'' (escape_script_close cs)"
          by (simp_all add: script_close_def)
        have "prefix ''/script>'' cs"
          by (rule escape_prefix_plain [OF _ rest]) simp
        with c have "prefix script_close (c # cs)"
          by (simp add: script_close_def)
        with False show False by simp
      qed
      with ih show ?thesis
        unfolding t escape_other [OF False] by (simp add: sublist_Cons_right [of _ c])
    qed
  qed
qed

lemma events_literal_no_script_close: "\<not> sublist script_close (events_literal events)"
  by (simp add: events_literal_def escape_no_script_close)

text \<open>
  Claim C10, on the source. The pattern matches only the lower-case spelling. An event
  with the text \<open></SCRIPT><script>alert(1)</script>\<close> reaches the document with its
  \<open></SCRIPT>\<close> as it is, inside the \<open>script\<close> element; only the \<open></script>\<close> after it is
  replaced.
\<close>

theorem uppercase_script_close_kept:
  "getHtml rrwebStyle rrwebRaw shouting config =
     html_head @ rrwebStyle @ html_script_open @ rrwebRaw @ html_events_open @
     ''[{\"type\":5,\"data\":{\"tag\":\"</SCRIPT><script>alert(1)<'' @ [CHR 0x5C] @
     ''/script>\"},\"timestamp\":0}]'' @
     html_config_open @ config_literal config @ html_player"
  by (simp add: getHtml_def events_literal_def escape_script_close_def script_close_def
      shouting_def quote_def quote_char_def Number_toString_def digit_char_def
      script_close_escaped_def)

end
